theory Spec2Isabelle
  imports Complex_Main "HOL-Library.Sublist"
begin

section \<open>Test-plan generator: data model\<close>

text \<open>
  A shallow embedding of the backend services of the test-plan generator:
  the ticket cache (\<open>jira-ticket-service\<close>), the template store
  (\<open>template-service\<close>), the two LLM providers (\<open>groq-provider\<close>,
  \<open>ollama-provider\<close>) and the orchestrator (\<open>testplan-service\<close>).

  Conventions of the embedding.
  \<^item> The SQLite database is a record of tables, each table a list of rows in rowid
    order, with the \<open>AUTOINCREMENT\<close> counter beside it. A statement does what its SQL
    says; the only statement that is allowed to fail for reasons outside the program
    is the insert into \<open>test_plan_history\<close>, whose failure the orchestrator handles
    explicitly.
  \<^item> \<open>CURRENT_TIMESTAMP\<close> is a parameter \<open>now\<close> of the operation that uses it.
  \<^item> The \<open>labels\<close>, \<open>attachments\<close> and \<open>raw_data\<close> columns hold
    \<open>JSON.stringify\<close> text in the program; the model keeps the value that was
    serialised.
  \<^item> A thrown JavaScript value is a \<open>js_error\<close>; a function that may throw returns
    \<open>js_error + 'a\<close> with \<open>Inl\<close> for the throw.
  \<^item> An async generator that is consumed to its end is the list of the events it
    yields together with the exception, if any, that ends it.
\<close>

subsection \<open>Errors (middleware/errorHandler.ts)\<close>

record ApiError =
  err_message :: string
  err_status :: nat
  err_code :: string

definition BadRequest :: "string \<Rightarrow> ApiError" where
  "BadRequest m = \<lparr>err_message = m, err_status = 400, err_code = ''BAD_REQUEST''\<rparr>"

definition Unauthorized :: "string \<Rightarrow> ApiError" where
  "Unauthorized m = \<lparr>err_message = m, err_status = 401, err_code = ''UNAUTHORIZED''\<rparr>"

definition NotFound :: "string \<Rightarrow> ApiError" where
  "NotFound resource =
     \<lparr>err_message = resource @ '' not found'', err_status = 404, err_code = ''NOT_FOUND''\<rparr>"

definition TooManyRequests :: "string \<Rightarrow> ApiError" where
  "TooManyRequests m =
     \<lparr>err_message = m, err_status = 429, err_code = ''TOO_MANY_REQUESTS''\<rparr>"

definition Internal :: "string \<Rightarrow> ApiError" where
  "Internal m = \<lparr>err_message = m, err_status = 500, err_code = ''INTERNAL_ERROR''\<rparr>"

definition BadGateway :: "string \<Rightarrow> ApiError" where
  "BadGateway m = \<lparr>err_message = m, err_status = 502, err_code = ''BAD_GATEWAY''\<rparr>"

text \<open>
  The values the program throws or catches: its own \<open>ApiError\<close>, the Groq SDK's
  \<open>APIError\<close> (status, message), an \<open>AxiosError\<close> (code, response status, message),
  the engine's \<open>ReferenceError\<close> for a name that is not bound (message), any other
  \<open>Error\<close> (message), and a thrown value that is not an \<open>Error\<close>.
\<close>

datatype js_error =
    ApiErr ApiError
  | GroqAPIError "nat option" string
  | AxiosError "string option" "nat option" string
  | ReferenceError string
  | PlainError string
  | NonError

fun instanceof_Error :: "js_error \<Rightarrow> bool" where
  "instanceof_Error NonError = False"
| "instanceof_Error _ = True"

text \<open>\<open>'status' in error\<close>: \<open>ApiError\<close> and the Groq SDK's \<open>APIError\<close> declare the field.\<close>

fun has_status :: "js_error \<Rightarrow> bool" where
  "has_status (ApiErr _) = True"
| "has_status (GroqAPIError _ _) = True"
| "has_status _ = False"

fun error_message :: "js_error \<Rightarrow> string" where
  "error_message (ApiErr e) = err_message e"
| "error_message (GroqAPIError _ m) = m"
| "error_message (AxiosError _ _ m) = m"
| "error_message (ReferenceError m) = m"
| "error_message (PlainError m) = m"
| "error_message NonError = []"

text \<open>\<open>String.prototype.includes\<close>.\<close>

fun str_includes :: "string \<Rightarrow> string \<Rightarrow> bool" where
  "str_includes [] t = (t = [])"
| "str_includes (c # cs) t = (prefix t (c # cs) \<or> str_includes cs t)"

subsection \<open>Tickets (types/index.ts, database/connection.ts)\<close>

record Attachment =
  att_filename :: string
  att_contentType :: string
  att_size :: nat
  att_url :: string

record JiraTicketResponse =
  key :: string
  summary :: string
  description :: string
  priority :: string
  status :: string
  assignee :: string
  labels :: "string list"
  acceptanceCriteria :: string
  attachments :: "Attachment list"

record JiraTicketRow =
  row_id :: nat
  row_ticket_key :: string
  row_summary :: string
  row_description :: string
  row_priority :: string
  row_status :: string
  row_assignee :: string
  row_labels :: "string list"
  row_acceptance_criteria :: string
  row_attachments :: "Attachment list"
  row_raw_data :: JiraTicketResponse
  row_fetched_at :: nat

subsection \<open>Templates and history\<close>

record TemplateRow =
  tr_id :: nat
  tr_name :: string
  tr_filename :: string
  tr_filepath :: string
  tr_content :: string
  tr_is_default :: nat
  tr_created_at :: nat
  tr_updated_at :: nat

record Template =
  tpl_id :: nat
  tpl_name :: string
  tpl_filename :: string
  tpl_filepath :: string
  tpl_content :: string
  tpl_isDefault :: bool
  tpl_createdAt :: nat

record HistoryRow =
  h_id :: nat
  h_ticket_key :: string
  h_ticket_id :: "nat option"
  h_template_id :: "nat option"
  h_llm_provider :: string
  h_generated_content :: string
  h_created_at :: nat

text \<open>
  The part of the single \<open>settings\<close> row the orchestrator reads, as
  \<open>SettingsService.getSettings\<close> returns it (secrets already decrypted).
\<close>

record Settings =
  jira_base_url :: string
  jira_api_token :: string
  groq_temperature :: rat
  ollama_base_url :: string
  ollama_model :: string

record db =
  jira_tickets :: "JiraTicketRow list"
  jira_tickets_seq :: nat
  templates :: "TemplateRow list"
  templates_seq :: nat
  test_plan_history :: "HistoryRow list"
  test_plan_history_seq :: nat
  settings :: Settings

section \<open>Ticket cache (JiraTicketService)\<close>

text \<open>
  \<open>saveTicket\<close> runs one statement,
  \<open>INSERT INTO jira_tickets (...) VALUES (...) ON CONFLICT(ticket_key) DO UPDATE SET ...\<close>:
  a row with the ticket's key is overwritten in place (its \<open>id\<close> and \<open>ticket_key\<close> stay),
  otherwise a new row is appended under the next rowid. SQLite draws the rowid of the
  candidate row before it finds the conflict, so the \<open>AUTOINCREMENT\<close> counter advances
  on both paths.
\<close>

definition excluded_row :: "nat \<Rightarrow> nat \<Rightarrow> JiraTicketResponse \<Rightarrow> JiraTicketRow" where
  "excluded_row i now ticket =
     \<lparr>row_id = i, row_ticket_key = key ticket, row_summary = summary ticket,
      row_description = description ticket, row_priority = priority ticket,
      row_status = status ticket, row_assignee = assignee ticket,
      row_labels = labels ticket, row_acceptance_criteria = acceptanceCriteria ticket,
      row_attachments = attachments ticket, row_raw_data = ticket,
      row_fetched_at = now\<rparr>"

definition do_update :: "nat \<Rightarrow> JiraTicketResponse \<Rightarrow> JiraTicketRow \<Rightarrow> JiraTicketRow" where
  "do_update now ticket r =
     r\<lparr>row_summary := summary ticket, row_description := description ticket,
       row_priority := priority ticket, row_status := status ticket,
       row_assignee := assignee ticket, row_labels := labels ticket,
       row_acceptance_criteria := acceptanceCriteria ticket,
       row_attachments := attachments ticket, row_raw_data := ticket,
       row_fetched_at := now\<rparr>"

definition saveTicket :: "nat \<Rightarrow> JiraTicketResponse \<Rightarrow> db \<Rightarrow> db" where
  "saveTicket now ticket d =
     (if \<exists>r \<in> set (jira_tickets d). row_ticket_key r = key ticket
      then d\<lparr>jira_tickets :=
               map (\<lambda>r. if row_ticket_key r = key ticket then do_update now ticket r else r)
                 (jira_tickets d),
             jira_tickets_seq := Suc (jira_tickets_seq d)\<rparr>
      else d\<lparr>jira_tickets :=
               jira_tickets d @ [excluded_row (Suc (jira_tickets_seq d)) now ticket],
             jira_tickets_seq := Suc (jira_tickets_seq d)\<rparr>)"

definition rowToResponse :: "JiraTicketRow \<Rightarrow> JiraTicketResponse" where
  "rowToResponse r =
     \<lparr>key = row_ticket_key r, summary = row_summary r, description = row_description r,
      priority = row_priority r, status = row_status r, assignee = row_assignee r,
      labels = row_labels r, acceptanceCriteria = row_acceptance_criteria r,
      attachments = row_attachments r\<rparr>"

text \<open>\<open>SELECT * FROM jira_tickets WHERE ticket_key = ?\<close>, first row.\<close>

definition select_ticket :: "db \<Rightarrow> string \<Rightarrow> JiraTicketRow option" where
  "select_ticket d k = find (\<lambda>r. row_ticket_key r = k) (jira_tickets d)"

definition JiraTicketService_getTicket :: "db \<Rightarrow> string \<Rightarrow> JiraTicketResponse option" where
  "JiraTicketService_getTicket d ticketKey = map_option rowToResponse (select_ticket d ticketKey)"

definition getCount_tickets :: "db \<Rightarrow> nat" where
  "getCount_tickets d = length (jira_tickets d)"


section \<open>Template store (TemplateService)\<close>

definition rowToTemplate :: "TemplateRow \<Rightarrow> Template" where
  "rowToTemplate row =
     \<lparr>tpl_id = tr_id row, tpl_name = tr_name row, tpl_filename = tr_filename row,
      tpl_filepath = tr_filepath row, tpl_content = tr_content row,
      tpl_isDefault = (tr_is_default row \<noteq> 0), tpl_createdAt = tr_created_at row\<rparr>"

text \<open>
  \<open>ORDER BY is_default DESC, created_at DESC\<close>. SQLite leaves the order of rows with
  equal keys open; the model keeps them in rowid order.
\<close>

definition template_before :: "TemplateRow \<Rightarrow> TemplateRow \<Rightarrow> bool" where
  "template_before a b =
     (tr_is_default b < tr_is_default a
      \<or> (tr_is_default a = tr_is_default b \<and> tr_created_at b \<le> tr_created_at a))"

fun insert_row :: "TemplateRow \<Rightarrow> TemplateRow list \<Rightarrow> TemplateRow list" where
  "insert_row a [] = [a]"
| "insert_row a (b # bs) = (if template_before a b then a # b # bs else b # insert_row a bs)"

definition order_templates :: "TemplateRow list \<Rightarrow> TemplateRow list" where
  "order_templates rows = foldr insert_row rows []"

definition getAllTemplates :: "db \<Rightarrow> Template list" where
  "getAllTemplates d = map rowToTemplate (order_templates (templates d))"

definition TemplateService_getTemplate :: "db \<Rightarrow> nat \<Rightarrow> Template option" where
  "TemplateService_getTemplate d i =
     map_option rowToTemplate (find (\<lambda>r. tr_id r = i) (templates d))"

text \<open>
  \<open>SELECT * FROM templates WHERE is_default = 1 LIMIT 1\<close>, and, when there is no such
  row, \<open>this.getAllTemplates()[0] || null\<close>.
\<close>

definition getDefaultTemplate :: "db \<Rightarrow> Template option" where
  "getDefaultTemplate d =
     (case find (\<lambda>r. tr_is_default r = 1) (templates d) of
        Some row \<Rightarrow> Some (rowToTemplate row)
      | None \<Rightarrow> (case getAllTemplates d of [] \<Rightarrow> None | t # _ \<Rightarrow> Some t))"

definition getCount :: "db \<Rightarrow> nat" where
  "getCount d = length (templates d)"

definition hasTemplates :: "db \<Rightarrow> bool" where
  "hasTemplates d = (0 < getCount d)"

definition shouldBeDefault :: "db \<Rightarrow> bool" where
  "shouldBeDefault d = (\<not> hasTemplates d)"

text \<open>
  \<open>CREATE UNIQUE INDEX idx_default_template ON templates (is_default) WHERE is_default = 1\<close>:
  a statement that would leave two rows with \<open>is_default = 1\<close> fails.
\<close>

definition default_rows :: "TemplateRow list \<Rightarrow> TemplateRow list" where
  "default_rows rows = filter (\<lambda>r. tr_is_default r = 1) rows"

definition idx_default_template :: "TemplateRow list \<Rightarrow> bool" where
  "idx_default_template rows = (length (default_rows rows) \<le> 1)"

text \<open>
  \<open>UPDATE templates SET is_default = 0 WHERE is_default = 1\<close>; the trigger
  \<open>update_templates_timestamp\<close> stamps each updated row.
\<close>

definition unset_default :: "nat \<Rightarrow> TemplateRow list \<Rightarrow> TemplateRow list" where
  "unset_default now rows =
     map (\<lambda>r. if tr_is_default r = 1 then r\<lparr>tr_is_default := 0, tr_updated_at := now\<rparr> else r)
       rows"

record CreateTemplateData =
  ctd_name :: string
  ctd_filename :: string
  ctd_filepath :: string
  ctd_content :: string
  ctd_isDefault :: bool

text \<open>
  The service methods change the database and may then throw: they return the database
  they leave behind together with the result.
\<close>

definition insertTemplate :: "nat \<Rightarrow> CreateTemplateData \<Rightarrow> db \<Rightarrow> db \<times> (js_error + nat)" where
  "insertTemplate now data' d =
     (let d1 = (if ctd_isDefault data'
                then d\<lparr>templates := unset_default now (templates d)\<rparr> else d);
          i = Suc (templates_seq d1);
          row = \<lparr>tr_id = i, tr_name = ctd_name data', tr_filename = ctd_filename data',
                 tr_filepath = ctd_filepath data', tr_content = ctd_content data',
                 tr_is_default = (if ctd_isDefault data' then 1 else 0),
                 tr_created_at = now, tr_updated_at = now\<rparr>
      in if idx_default_template (templates d1 @ [row])
         then (d1\<lparr>templates := templates d1 @ [row], templates_seq := i\<rparr>, Inr i)
         else (d1, Inl (ApiErr (Internal ''Failed to save template to database''))))"

text \<open>
  An uploaded file (\<open>Express.Multer.File\<close>) and what the libraries around the upload
  compute from it: \<open>extractText\<close> (pdf-parse and the clean-up of its text; \<open>None\<close> when
  it throws \<open>Invalid PDF structure\<close>), the stored file name (uuid and
  \<open>sanitizeFilename\<close>), its path (\<open>path.join\<close>) and the base name of the original
  file (\<open>path.parse\<close>). The file written to disk is not part of the model.
\<close>

record MulterFile =
  file_buffer :: bool
  file_mimetype :: string
  file_size :: nat
  file_originalname :: string
  file_extractText :: "string option"
  file_storedFilename :: string
  file_filepath :: string
  file_parsed_name :: string

definition createTemplate ::
  "nat \<Rightarrow> MulterFile option \<Rightarrow> string option \<Rightarrow> db \<Rightarrow> db \<times> (js_error + Template option)" where
  "createTemplate now file name d =
     (case file of
        None \<Rightarrow> (d, Inl (ApiErr (BadRequest ''No file uploaded'')))
      | Some f \<Rightarrow>
          if \<not> file_buffer f then (d, Inl (ApiErr (BadRequest ''No file uploaded'')))
          else if file_mimetype f \<noteq> ''application/pdf''
          then (d, Inl (ApiErr (BadRequest ''File must be a PDF'')))
          else if 5 * 1024 * 1024 < file_size f
          then (d, Inl (ApiErr (BadRequest ''File size exceeds 5MB limit'')))
          else (case file_extractText f of
                  None \<Rightarrow> (d, Inl (ApiErr (BadRequest ''Invalid or corrupted PDF file'')))
                | Some content \<Rightarrow>
                    let isDefault = shouldBeDefault d;
                        templateName = (case name of
                                          None \<Rightarrow> file_parsed_name f
                                        | Some n \<Rightarrow> if n = [] then file_parsed_name f else n)
                    in (case insertTemplate now
                              \<lparr>ctd_name = templateName, ctd_filename = file_storedFilename f,
                               ctd_filepath = file_filepath f, ctd_content = content,
                               ctd_isDefault = isDefault\<rparr> d of
                          (d', Inl e) \<Rightarrow> (d', Inl e)
                        | (d', Inr templateId) \<Rightarrow>
                            (d', Inr (TemplateService_getTemplate d' templateId)))))"

record UpdateData =
  upd_name :: "string option"
  upd_isDefault :: "bool option"

text \<open>
  The \<open>catch\<close> of \<open>updateTemplate\<close> and \<open>deleteTemplate\<close>: an error whose message
  includes \<open>not found\<close> is rethrown, any other becomes \<open>Internal\<close>.
\<close>

definition catch_not_found :: "string \<Rightarrow> js_error \<Rightarrow> js_error" where
  "catch_not_found fallback e =
     (if instanceof_Error e \<and> str_includes (error_message e) ''not found'' then e
      else ApiErr (Internal fallback))"

definition sql_update_template :: "nat \<Rightarrow> nat \<Rightarrow> UpdateData \<Rightarrow> TemplateRow \<Rightarrow> TemplateRow" where
  "sql_update_template now i data' r =
     (if tr_id r = i
      then r\<lparr>tr_name := (case upd_name data' of Some n \<Rightarrow> n | None \<Rightarrow> tr_name r),
             tr_is_default := (case upd_isDefault data' of
                                 Some b \<Rightarrow> (if b then 1 else 0)
                               | None \<Rightarrow> tr_is_default r),
             tr_updated_at := now\<rparr>
      else r)"

definition updateTemplate ::
  "nat \<Rightarrow> nat \<Rightarrow> UpdateData \<Rightarrow> db \<Rightarrow> db \<times> (js_error + Template option)" where
  "updateTemplate now i data' d =
     (case TemplateService_getTemplate d i of
        None \<Rightarrow> (d, Inl (catch_not_found ''Failed to update template''
                           (ApiErr (NotFound ''Template''))))
      | Some template \<Rightarrow>
          let d1 = (if upd_isDefault data' = Some True
                    then d\<lparr>templates := unset_default now (templates d)\<rparr> else d)
          in if upd_name data' = None \<and> upd_isDefault data' = None
             then (d1, Inl (catch_not_found ''Failed to update template''
                              (ApiErr (BadRequest ''No fields to update''))))
             else let rows = map (sql_update_template now i data') (templates d1)
                  in if idx_default_template rows
                     then (d1\<lparr>templates := rows\<rparr>,
                           Inr (TemplateService_getTemplate (d1\<lparr>templates := rows\<rparr>) i))
                     else (d1, Inl (ApiErr (Internal ''Failed to update template''))))"

definition setAsDefault :: "nat \<Rightarrow> nat \<Rightarrow> db \<Rightarrow> db \<times> (js_error + Template option)" where
  "setAsDefault now i d = updateTemplate now i \<lparr>upd_name = None, upd_isDefault = Some True\<rparr> d"

text \<open>
  \<open>DELETE FROM templates WHERE id = ?\<close>; the foreign key of \<open>test_plan_history\<close> is
  \<open>ON DELETE SET NULL\<close>. Removing the file from disk is not part of the model.
\<close>

definition deleteTemplate :: "nat \<Rightarrow> db \<Rightarrow> db \<times> (js_error + unit)" where
  "deleteTemplate i d =
     (case TemplateService_getTemplate d i of
        None \<Rightarrow> (d, Inl (catch_not_found ''Failed to delete template''
                           (ApiErr (NotFound ''Template''))))
      | Some template \<Rightarrow>
          (d\<lparr>templates := filter (\<lambda>r. tr_id r \<noteq> i) (templates d),
             test_plan_history :=
               map (\<lambda>h. if h_template_id h = Some i then h\<lparr>h_template_id := None\<rparr> else h)
                 (test_plan_history d)\<rparr>,
           Inr ()))"

text \<open>The operations of the store as one type, to speak of any sequence of calls.\<close>

datatype template_op =
    Create nat "MulterFile option" "string option"
  | Update nat nat UpdateData
  | SetAsDefault nat nat
  | Delete nat

fun apply_template_op :: "template_op \<Rightarrow> db \<Rightarrow> db" where
  "apply_template_op (Create now file name) d = fst (createTemplate now file name d)"
| "apply_template_op (Update now i data') d = fst (updateTemplate now i data' d)"
| "apply_template_op (SetAsDefault now i) d = fst (setAsDefault now i d)"
| "apply_template_op (Delete i) d = fst (deleteTemplate i d)"

section \<open>Generation events and providers (services/llm)\<close>

datatype event_type = Progress | Content | Complete | Error

record GenerationStreamEvent =
  type :: event_type
  data :: string
  progress :: "rat option"

record TestPlanContext =
  ctx_ticket :: JiraTicketResponse
  ctx_template :: string
  ctx_temperature :: rat

text \<open>
  What the orchestrator uses of the \<open>LLMProvider\<close> interface: \<open>generateTestPlan\<close>,
  an async generator. Drained to its end it is the list of events it yields and the
  exception, if any, that leaves it.
\<close>

type_synonym provider_run = "GenerationStreamEvent list \<times> js_error option"

type_synonym LLMProvider = "TestPlanContext \<Rightarrow> provider_run"

text \<open>
  What the upstream service does on one call: the pieces it delivers, in order, and the
  error, if any, with which the request or the stream then fails. For Groq a piece is
  \<open>chunk.choices[0]?.delta?.content || ''\<close>, for Ollama the text of a network chunk.
\<close>

type_synonym upstream = "string list \<times> js_error option"

subsection \<open>GroqProvider\<close>

text \<open>\<open>handleError\<close> returns normally (\<open>None\<close>) or throws an \<open>ApiError\<close>.\<close>

fun Groq_handleError :: "js_error \<Rightarrow> ApiError option" where
  "Groq_handleError (GroqAPIError st m) =
     (if st = Some 401 then Some (Unauthorized ''Invalid Groq API key'')
      else if st = Some 429
      then Some (TooManyRequests ''Groq rate limit exceeded. Please try again later.'')
      else if (case st of Some n \<Rightarrow> 500 \<le> n | None \<Rightarrow> False)
      then Some (BadGateway ''Groq service error. Please try again later.'')
      else Some (BadGateway m))"
| "Groq_handleError e =
     (if instanceof_Error e \<and> str_includes (error_message e) ''timeout''
      then Some (BadGateway ''Request to Groq timed out'') else None)"

text \<open>
  The loop over the upstream stream, with its two counters. \<open>length\<close> stands for the
  JavaScript string length; it only enters the advisory progress value.
\<close>

fun Groq_stream :: "string \<Rightarrow> nat \<Rightarrow> string list \<Rightarrow> GenerationStreamEvent list \<times> string" where
  "Groq_stream fullContent chunkCount [] = ([], fullContent)"
| "Groq_stream fullContent chunkCount (content # rest) =
     (if content \<noteq> [] then
        (let fullContent' = fullContent @ content;
             chunkCount' = Suc chunkCount;
             ev = (if chunkCount' mod 5 = 0
                   then \<lparr>type = Content, data = content,
                         progress = Some (min (10 + of_nat (length fullContent') / 100) 90)\<rparr>
                   else \<lparr>type = Content, data = content, progress = None\<rparr>);
             (evs, full) = Groq_stream fullContent' chunkCount' rest
         in (ev # evs, full))
      else Groq_stream fullContent chunkCount rest)"

definition Groq_generateTestPlan :: "upstream \<Rightarrow> provider_run" where
  "Groq_generateTestPlan up =
     (let (evs, fullContent) = Groq_stream [] 0 (fst up);
          started = \<lparr>type = Progress, data = ''Generating test plan with Groq...'',
                     progress = Some 10\<rparr> # evs
      in case snd up of
           None \<Rightarrow>
             (started @ [\<lparr>type = Complete, data = fullContent, progress = Some 100\<rparr>], None)
         | Some e \<Rightarrow>
             (case Groq_handleError e of
                Some api \<Rightarrow> (started, Some (ApiErr api))
              | None \<Rightarrow>
                  (started @
                     [\<lparr>type = Error,
                       data = (if instanceof_Error e then error_message e
                               else ''Unknown error''),
                       progress = None\<rparr>],
                   None)))"

subsection \<open>OllamaProvider\<close>

record OllamaGenerateResponse =
  response :: string
  is_done :: bool

record OllamaProviderConfig =
  baseUrl :: string
  model :: string

text \<open>\<open>handleError\<close> of the Ollama provider always throws.\<close>

fun Ollama_handleError :: "OllamaProviderConfig \<Rightarrow> js_error \<Rightarrow> ApiError" where
  "Ollama_handleError cfg (AxiosError c st m) =
     (if c = Some ''ECONNREFUSED''
      then BadGateway (''Cannot connect to Ollama. Please ensure Ollama is running on ''
                       @ baseUrl cfg)
      else if c = Some ''ETIMEDOUT'' then BadGateway ''Connection to Ollama timed out''
      else if st = Some 404
      then NotFound (''Ollama model not found. Please pull the model first with: ollama pull ''
                     @ model cfg)
      else BadGateway m)"
| "Ollama_handleError cfg e =
     BadGateway (if instanceof_Error e then error_message e else ''Ollama request failed'')"

text \<open>\<open>String.prototype.split('\n')\<close>: never empty, the last element is the open line.\<close>

fun split_lines :: "string \<Rightarrow> string list" where
  "split_lines [] = [[]]"
| "split_lines (c # cs) =
     (if c = CHR 0x0A then [] # split_lines cs
      else (case split_lines cs of l # ls \<Rightarrow> (c # l) # ls | [] \<Rightarrow> [[c]]))"

text \<open>\<open>!line.trim()\<close>: the line holds white space only (ASCII white space in the model).\<close>

definition is_space :: "char \<Rightarrow> bool" where
  "is_space c = (c = CHR '' '' \<or> c = CHR 0x09 \<or> c = CHR 0x0A \<or> c = CHR 0x0B
                 \<or> c = CHR 0x0C \<or> c = CHR 0x0D)"

definition blank :: "string \<Rightarrow> bool" where
  "blank line = (filter (\<lambda>c. \<not> is_space c) line = [])"

text \<open>
  The inner loop over the complete lines of one chunk. \<open>parse\<close> is \<open>JSON.parse\<close> read
  at the type \<open>OllamaGenerateResponse\<close>; \<open>None\<close> when the \<open>try\<close> block throws and the
  line is skipped. The result says whether the generator has returned (\<open>done\<close> seen).
\<close>

fun Ollama_lines ::
  "(string \<Rightarrow> OllamaGenerateResponse option) \<Rightarrow> string \<Rightarrow> string list
     \<Rightarrow> GenerationStreamEvent list \<times> string \<times> bool" where
  "Ollama_lines parse fullContent [] = ([], fullContent, False)"
| "Ollama_lines parse fullContent (line # rest) =
     (if blank line then Ollama_lines parse fullContent rest
      else (case parse line of
              None \<Rightarrow> Ollama_lines parse fullContent rest
            | Some d \<Rightarrow>
                (let fullContent' = (if response d \<noteq> [] then fullContent @ response d
                                     else fullContent);
                     evs = (if response d \<noteq> []
                            then [\<lparr>type = Content, data = response d,
                                   progress = Some (if is_done d then 100
                                                    else min (10 + of_nat (length fullContent') / 100) 95)\<rparr>]
                            else [])
                 in if is_done d
                    then (evs @ [\<lparr>type = Complete, data = fullContent', progress = Some 100\<rparr>],
                          fullContent', True)
                    else (let (evs', full, fin) = Ollama_lines parse fullContent' rest
                          in (evs @ evs', full, fin)))))"



text \<open>The outer loop over the chunks of the response body, with the line buffer.\<close>

fun Ollama_chunks ::
  "(string \<Rightarrow> OllamaGenerateResponse option) \<Rightarrow> string \<Rightarrow> string \<Rightarrow> string list
     \<Rightarrow> GenerationStreamEvent list \<times> string \<times> bool" where
  "Ollama_chunks parse fullContent buffer [] = ([], fullContent, False)"
| "Ollama_chunks parse fullContent buffer (chunk # rest) =
     (let lines = split_lines (buffer @ chunk);
          (evs, full, fin) = Ollama_lines parse fullContent (butlast lines)
      in if fin then (evs, full, True)
         else (let (evs', full', fin') = Ollama_chunks parse full (last lines) rest
               in (evs @ evs', full', fin')))"


definition Ollama_generateTestPlan ::
  "OllamaProviderConfig \<Rightarrow> (string \<Rightarrow> OllamaGenerateResponse option) \<Rightarrow> upstream
     \<Rightarrow> provider_run" where
  "Ollama_generateTestPlan cfg parse up =
     (let started = \<lparr>type = Progress, data = ''Generating test plan with Ollama (local)...'',
                     progress = Some 10\<rparr>;
          (evs, fullContent, fin) = Ollama_chunks parse [] [] (fst up)
      in if fin then (started # evs, None)
         else (case snd up of
                 None \<Rightarrow>
                   (started # evs @
                      [\<lparr>type = Complete, data = fullContent, progress = Some 100\<rparr>],
                    None)
               | Some e \<Rightarrow> (started # evs, Some (ApiErr (Ollama_handleError cfg e)))))"

section \<open>Orchestrator (TestPlanService)\<close>

datatype provider_name = groq | ollama

fun provider_string :: "provider_name \<Rightarrow> string" where
  "provider_string groq = ''groq''"
| "provider_string ollama = ''ollama''"

record GenerationOptions =
  ticketId :: string
  templateId :: "nat option"
  provider :: provider_name

text \<open>
  What lies outside the process during one run: the clock, the answer of the JIRA
  client to \<open>fetchTicket\<close>, what the two upstream LLM services would answer,
  \<open>JSON.parse\<close> on a line of the Ollama stream, and whether the insert into
  \<open>test_plan_history\<close> fails.
\<close>

record world =
  clock :: nat
  fetchTicket :: "string \<Rightarrow> js_error + JiraTicketResponse"
  groq_upstream :: "TestPlanContext \<Rightarrow> upstream"
  ollama_upstream :: "TestPlanContext \<Rightarrow> upstream"
  JSON_parse :: "string \<Rightarrow> OllamaGenerateResponse option"
  history_insert_fails :: bool

text \<open>
  \<open>createLLMProvider\<close> (services/llm/index.ts). The module re-exports the two provider
  classes (\<open>export { GroqProvider } from './groq-provider'\<close>, likewise
  \<open>OllamaProvider\<close>) and has no import of them. A re-export binds nothing in the scope
  of the module itself, so where the factory evaluates \<open>new GroqProvider(...)\<close> or
  \<open>new OllamaProvider(...)\<close> the name is not bound and the engine throws a
  \<open>ReferenceError\<close>, before the configuration object is built. No branch returns a
  provider. (\<open>getLLMConfig\<close>, read first, only reads the settings.)
\<close>

definition createLLMProvider :: "provider_name \<Rightarrow> js_error + LLMProvider" where
  "createLLMProvider p =
     (if p = groq then Inl (ReferenceError ''GroqProvider is not defined'')
      else if p = ollama then Inl (ReferenceError ''OllamaProvider is not defined'')
      else Inl (ApiErr (BadRequest (''Unknown provider: '' @ provider_string p))))"

text \<open>\<open>TestPlanService.getTicket\<close>: the cache, else JIRA and an upsert into the cache.\<close>

definition TestPlanService_getTicket ::
  "world \<Rightarrow> db \<Rightarrow> string \<Rightarrow> js_error + (JiraTicketResponse option \<times> db)" where
  "TestPlanService_getTicket w d tid =
     (case JiraTicketService_getTicket d tid of
        Some ticket \<Rightarrow> Inr (Some ticket, d)
      | None \<Rightarrow>
          if jira_base_url (settings d) = [] \<or> jira_api_token (settings d) = []
          then Inl (ApiErr (BadRequest
                 ''Ticket not in cache and JIRA not configured. Please configure JIRA settings first.''))
          else (case fetchTicket w tid of
                  Inl e \<Rightarrow> Inl e
                | Inr ticket \<Rightarrow> Inr (Some ticket, saveTicket (clock w) ticket d)))"

record ResolvedTemplate =
  rt_id :: nat
  rt_content :: string
  rt_name :: string

definition resolved :: "Template \<Rightarrow> ResolvedTemplate" where
  "resolved t = \<lparr>rt_id = tpl_id t, rt_content = tpl_content t, rt_name = tpl_name t\<rparr>"

text \<open>\<open>TestPlanService.getTemplate\<close>: by id when one is given (and not 0), else the default.\<close>

definition TestPlanService_getTemplate :: "db \<Rightarrow> nat option \<Rightarrow> js_error + ResolvedTemplate" where
  "TestPlanService_getTemplate d tid =
     (let template = (case tid of
                        None \<Rightarrow> None
                      | Some i \<Rightarrow> if i = 0 then None
                                  else map_option resolved (TemplateService_getTemplate d i));
          template' = (case template of
                         Some t \<Rightarrow> Some t
                       | None \<Rightarrow> map_option resolved (getDefaultTemplate d))
      in case template' of
           None \<Rightarrow> Inl (ApiErr (NotFound ''Template''))
         | Some t \<Rightarrow> Inr t)"

definition getTemperature :: "db \<Rightarrow> provider_name \<Rightarrow> rat" where
  "getTemperature d p =
     (case p of
        groq \<Rightarrow> (if groq_temperature (settings d) = 0 then 7 / 10
                  else groq_temperature (settings d))
      | ollama \<Rightarrow> 7 / 10)"

record HistoryData =
  hd_ticketKey :: string
  hd_templateId :: nat
  hd_provider :: string
  hd_content :: string

text \<open>
  \<open>saveToHistory\<close>: the insert is inside a \<open>try\<close> whose \<open>catch\<close> logs and returns 0.
  \<open>ticketRow?.id || null\<close> is the rowid of the cached ticket, if there is one.
\<close>

definition saveToHistory :: "world \<Rightarrow> HistoryData \<Rightarrow> db \<Rightarrow> db \<times> nat" where
  "saveToHistory w data' d =
     (if history_insert_fails w then (d, 0)
      else (let i = Suc (test_plan_history_seq d);
                row = \<lparr>h_id = i, h_ticket_key = hd_ticketKey data',
                       h_ticket_id = (case select_ticket d (hd_ticketKey data') of
                                        None \<Rightarrow> None
                                      | Some r \<Rightarrow> if row_id r = 0 then None else Some (row_id r)),
                       h_template_id = Some (hd_templateId data'),
                       h_llm_provider = hd_provider data',
                       h_generated_content = hd_content data',
                       h_created_at = clock w\<rparr>
            in (d\<lparr>test_plan_history := test_plan_history d @ [row],
                  test_plan_history_seq := i\<rparr>, i)))"

definition progress_event :: "string \<Rightarrow> rat \<Rightarrow> GenerationStreamEvent" where
  "progress_event msg p = \<lparr>type = Progress, data = msg, progress = Some p\<rparr>"

text \<open>The accumulator of the \<open>for await\<close> loop: \<open>fullContent += event.data\<close> on content.\<close>

definition accumulate :: "GenerationStreamEvent list \<Rightarrow> string" where
  "accumulate evs = foldl (\<lambda>fullContent event.
                             if type event = Content then fullContent @ data event
                             else fullContent) [] evs"

text \<open>
  The rest of the \<open>try\<close> block once a provider exists, given what its generator does:
  every event is forwarded; if the generator throws, so does the loop; otherwise the
  history is saved when the accumulated text is not empty, and \<open>complete\<close> is yielded.
\<close>

definition stream_and_save ::
  "world \<Rightarrow> db \<Rightarrow> provider_name \<Rightarrow> JiraTicketResponse \<Rightarrow> ResolvedTemplate \<Rightarrow> provider_run
     \<Rightarrow> GenerationStreamEvent list \<times> js_error option \<times> db" where
  "stream_and_save w d p ticket template run =
     (case snd run of
        Some e \<Rightarrow> (fst run, Some e, d)
      | None \<Rightarrow>
          (let fullContent = accumulate (fst run);
               final = \<lparr>type = Complete, data = fullContent, progress = Some 100\<rparr>
           in if fullContent \<noteq> []
              then (fst run @ [progress_event ''Saving to history...'' 95, final], None,
                    fst (saveToHistory w
                           \<lparr>hd_ticketKey = key ticket, hd_templateId = rt_id template,
                            hd_provider = provider_string p, hd_content = fullContent\<rparr> d))
              else (fst run @ [final], None, d)))"

text \<open>
  The \<open>try\<close> block of \<open>generate\<close>: the events yielded, the exception that leaves the
  block, if any, and the database it leaves behind.
\<close>

definition generate_try ::
  "world \<Rightarrow> db \<Rightarrow> GenerationOptions
     \<Rightarrow> GenerationStreamEvent list \<times> js_error option \<times> db" where
  "generate_try w d options =
     (let step1 = [progress_event ''Fetching JIRA ticket...'' 5]
      in case TestPlanService_getTicket w d (ticketId options) of
           Inl e \<Rightarrow> (step1, Some e, d)
         | Inr (None, d1) \<Rightarrow> (step1, Some (ApiErr (NotFound ''JIRA ticket'')), d1)
         | Inr (Some ticket, d1) \<Rightarrow>
             (let step2 = step1 @ [progress_event (''Ticket found: '' @ summary ticket) 15,
                                   progress_event ''Loading template...'' 20]
              in case TestPlanService_getTemplate d1 (templateId options) of
                   Inl e \<Rightarrow> (step2, Some e, d1)
                 | Inr template \<Rightarrow>
                     (let context = \<lparr>ctx_ticket = ticket, ctx_template = rt_content template,
                                      ctx_temperature = getTemperature d1 (provider options)\<rparr>;
                          step4 = step2 @
                            [progress_event ''Template loaded'' 25,
                             progress_event (''Generating with ''
                                @ provider_string (provider options) @ ''...'') 30]
                      in case createLLMProvider (provider options) of
                           Inl e \<Rightarrow> (step4, Some e, d1)
                         | Inr llmProvider \<Rightarrow>
                             (let (evs, err, d2) =
                                    stream_and_save w d1 (provider options) ticket
                                      template (llmProvider context)
                              in (step4 @ evs, err, d2)))))"

record run =
  events :: "GenerationStreamEvent list"
  thrown :: "js_error option"
  db_after :: db

text \<open>
  The \<open>catch\<close> of \<open>generate\<close>: an \<open>Error\<close> that has a \<open>status\<close> is thrown on
  (\<open>Already an ApiError\<close>), anything else becomes an \<open>error\<close> event.
\<close>

definition generate_catch :: "GenerationStreamEvent list \<Rightarrow> js_error \<Rightarrow> db \<Rightarrow> run" where
  "generate_catch evs e d =
     (if instanceof_Error e \<and> has_status e
      then \<lparr>events = evs, thrown = Some e, db_after = d\<rparr>
      else \<lparr>events = evs @
               [\<lparr>type = Error,
                 data = (if instanceof_Error e then error_message e
                         else ''Generation failed''),
                 progress = None\<rparr>],
             thrown = None, db_after = d\<rparr>)"

text \<open>
  \<open>generate\<close>, drained: \<open>events\<close> is everything the generator yields, \<open>thrown\<close> the
  exception that leaves it, if any, \<open>db_after\<close> the database it leaves behind.
\<close>

definition generate :: "world \<Rightarrow> db \<Rightarrow> GenerationOptions \<Rightarrow> run" where
  "generate w d options =
     (case generate_try w d options of
        (evs, None, d') \<Rightarrow> \<lparr>events = evs, thrown = None, db_after = d'\<rparr>
      | (evs, Some e, d') \<Rightarrow> generate_catch evs e d')"

definition is_terminal :: "GenerationStreamEvent \<Rightarrow> bool" where
  "is_terminal e = (type e = Complete \<or> type e = Error)"

definition content_of :: "GenerationStreamEvent list \<Rightarrow> string" where
  "content_of evs = concat (map data (filter (\<lambda>e. type e = Content) evs))"

text \<open>The progress events of the two resolution stages.\<close>

definition ticket_steps :: "JiraTicketResponse \<Rightarrow> GenerationStreamEvent list" where
  "ticket_steps ticket =
     [progress_event ''Fetching JIRA ticket...'' 5,
      progress_event (''Ticket found: '' @ summary ticket) 15,
      progress_event ''Loading template...'' 20]"

definition stream_steps :: "JiraTicketResponse \<Rightarrow> provider_name \<Rightarrow> GenerationStreamEvent list" where
  "stream_steps ticket p =
     ticket_steps ticket @
     [progress_event ''Template loaded'' 25,
      progress_event (''Generating with '' @ provider_string p @ ''...'') 30]"


definition is_content :: "GenerationStreamEvent \<Rightarrow> bool" where
  "is_content e = (type e = Content)"


section \<open>Concrete runs\<close>

text \<open>
  A small installation: ticket \<open>ABC-1\<close> is cached, one template is stored and is the
  default, JIRA is configured, and the history is empty.
\<close>

definition ticket_abc1 :: JiraTicketResponse where
  "ticket_abc1 =
     \<lparr>key = ''ABC-1'', summary = ''Login'', description = ''As a user'',
      priority = ''High'', status = ''Open'', assignee = ''Unassigned'',
      labels = [''auth''], acceptanceCriteria = [], attachments = []\<rparr>"

definition ticket_abc1_refetched :: JiraTicketResponse where
  "ticket_abc1_refetched =
     \<lparr>key = ''ABC-1'', summary = ''Login v2'', description = ''As an admin'',
      priority = ''Low'', status = ''Done'', assignee = ''Kim'',
      labels = [], acceptanceCriteria = ''Given a user'',
      attachments = [\<lparr>att_filename = ''a.png'', att_contentType = ''image/png'',
                       att_size = 10, att_url = ''http://x/a.png''\<rparr>]\<rparr>"

definition row_abc1 :: JiraTicketRow where
  "row_abc1 = excluded_row 1 3 ticket_abc1"

definition template_row1 :: TemplateRow where
  "template_row1 =
     \<lparr>tr_id = 1, tr_name = ''Standard'', tr_filename = ''ab12cd34_standard.pdf'',
      tr_filepath = ''templates/ab12cd34_standard.pdf'', tr_content = ''1. Scope'',
      tr_is_default = 1, tr_created_at = 2, tr_updated_at = 2\<rparr>"

definition template_row2 :: TemplateRow where
  "template_row2 =
     \<lparr>tr_id = 2, tr_name = ''Short'', tr_filename = ''ef56ab78_short.pdf'',
      tr_filepath = ''templates/ef56ab78_short.pdf'', tr_content = ''Cases'',
      tr_is_default = 0, tr_created_at = 4, tr_updated_at = 4\<rparr>"

definition settings1 :: Settings where
  "settings1 =
     \<lparr>jira_base_url = ''https://jira.example.com'', jira_api_token = ''token'',
      groq_temperature = 7 / 10, ollama_base_url = ''http://localhost:11434/'',
      ollama_model = ''llama3''\<rparr>"

definition db1 :: db where
  "db1 = \<lparr>jira_tickets = [row_abc1], jira_tickets_seq = 1,
           templates = [template_row1], templates_seq = 1,
           test_plan_history = [], test_plan_history_seq = 0,
           settings = settings1\<rparr>"

text \<open>The same installation after the default template was deleted and another uploaded.\<close>

definition db_no_default :: db where
  "db_no_default = db1\<lparr>templates := [template_row2], templates_seq := 2\<rparr>"

definition db_two_templates :: db where
  "db_two_templates = db1\<lparr>templates := [template_row1, template_row2], templates_seq := 2\<rparr>"

definition db_empty_store :: db where
  "db_empty_store = db1\<lparr>templates := [], templates_seq := 0\<rparr>"

definition pdf_upload :: MulterFile where
  "pdf_upload =
     \<lparr>file_buffer = True, file_mimetype = ''application/pdf'', file_size = 2048,
      file_originalname = ''Plan.pdf'', file_extractText = Some ''Test plan'',
      file_storedFilename = ''0a1b2c3d_plan.pdf'',
      file_filepath = ''templates/0a1b2c3d_plan.pdf'', file_parsed_name = ''Plan''\<rparr>"

text \<open>
  Lines of an Ollama stream are stood for by short words: \<open>hello\<close> carries the text
  \<open>Hello\<close>, \<open>bye\<close> carries \<open>!\<close> with the completion flag, \<open>stop\<close> carries the flag
  alone; anything else does not parse.
\<close>

definition parse1 :: "string \<Rightarrow> OllamaGenerateResponse option" where
  "parse1 line =
     (if line = ''hello'' then Some \<lparr>response = ''Hello'', is_done = False\<rparr>
      else if line = ''bye'' then Some \<lparr>response = ''!'', is_done = True\<rparr>
      else if line = ''stop'' then Some \<lparr>response = [], is_done = True\<rparr>
      else None)"

definition nl :: string where
  "nl = [CHR 0x0A]"

text \<open>
  Groq would stream two pieces and end; Ollama would close without a completion flag;
  JIRA does not know any ticket that is not cached.
\<close>

definition world1 :: world where
  "world1 =
     \<lparr>clock = 7,
      fetchTicket = (\<lambda>t. Inl (ApiErr (NotFound ''JIRA ticket''))),
      groq_upstream = (\<lambda>c. ([''Test '', ''plan''], None)),
      ollama_upstream = (\<lambda>c. ([''hel'', ''lo'' @ nl @ ''hel''], None)),
      JSON_parse = parse1,
      history_insert_fails = False\<rparr>"




definition options_groq :: GenerationOptions where
  "options_groq = \<lparr>ticketId = ''ABC-1'', templateId = None, provider = groq\<rparr>"

definition options_ollama :: GenerationOptions where
  "options_ollama = \<lparr>ticketId = ''ABC-1'', templateId = None, provider = ollama\<rparr>"





text \<open>The five progress events of a run on ticket \<open>ABC-1\<close> up to the provider stage.\<close>

definition steps_abc1 :: "provider_name \<Rightarrow> GenerationStreamEvent list" where
  "steps_abc1 p =
     [\<lparr>type = Progress, data = ''Fetching JIRA ticket...'', progress = Some 5\<rparr>,
      \<lparr>type = Progress, data = ''Ticket found: Login'', progress = Some 15\<rparr>,
      \<lparr>type = Progress, data = ''Loading template...'', progress = Some 20\<rparr>,
      \<lparr>type = Progress, data = ''Template loaded'', progress = Some 25\<rparr>,
      \<lparr>type = Progress, data = ''Generating with '' @ provider_string p @ ''...'',
       progress = Some 30\<rparr>]"

section \<open>The ticket cache is an upsert\<close>

lemma do_update_eq:
  "row_ticket_key r = key ticket \<Longrightarrow> do_update now ticket r = excluded_row (row_id r) now ticket"
  by (cases r) (simp add: do_update_def excluded_row_def)

lemma find_map_hit:
  "find P xs = Some r \<Longrightarrow> (\<And>x. P (f x) = P x) \<Longrightarrow> find P (map f xs) = Some (f r)"
  by (induction xs) (auto split: if_splits)

lemma find_map_miss:
  "(\<And>x. Q x \<Longrightarrow> f x = x) \<Longrightarrow> (\<And>x. Q (f x) = Q x) \<Longrightarrow> find Q (map f xs) = find Q xs"
  by (induction xs) (auto split: if_splits)

text \<open>
  C7. When the ticket's key is already cached, \<open>saveTicket\<close> keeps the number of rows,
  the rowids and the keys; the row of that key now holds every field of the re-fetched
  ticket (summary, description, priority, status, assignee, labels, acceptance
  criteria, attachments, raw data) and the time of the save as \<open>fetched_at\<close>; the rows
  of all other keys read as before.
\<close>

theorem saveTicket_upsert:
  assumes "select_ticket d (key ticket) = Some r"
  shows "getCount_tickets (saveTicket now ticket d) = getCount_tickets d
    \<and> select_ticket (saveTicket now ticket d) (key ticket)
        = Some (excluded_row (row_id r) now ticket)
    \<and> map row_id (jira_tickets (saveTicket now ticket d)) = map row_id (jira_tickets d)
    \<and> map row_ticket_key (jira_tickets (saveTicket now ticket d))
        = map row_ticket_key (jira_tickets d)
    \<and> (\<forall>k. k \<noteq> key ticket \<longrightarrow>
          select_ticket (saveTicket now ticket d) k = select_ticket d k)"
proof -
  let ?f = "\<lambda>r. if row_ticket_key r = key ticket then do_update now ticket r else r"
  from assms have fnd: "find (\<lambda>r. row_ticket_key r = key ticket) (jira_tickets d) = Some r"
    by (simp add: select_ticket_def)
  then have ex: "\<exists>r \<in> set (jira_tickets d). row_ticket_key r = key ticket"
    by (auto simp: find_Some_iff)
  have rk: "row_ticket_key r = key ticket"
    using fnd by (auto simp: find_Some_iff)
  have keep: "\<And>x. row_ticket_key (?f x) = row_ticket_key x"
    by (simp add: do_update_def)
  have keepid: "\<And>x. row_id (?f x) = row_id x"
    by (simp add: do_update_def)
  have st: "jira_tickets (saveTicket now ticket d) = map ?f (jira_tickets d)"
    using ex by (simp add: saveTicket_def)
  have c1: "getCount_tickets (saveTicket now ticket d) = getCount_tickets d"
    by (simp add: getCount_tickets_def st)
  have "find (\<lambda>r. row_ticket_key r = key ticket) (map ?f (jira_tickets d)) = Some (?f r)"
    by (rule find_map_hit [OF fnd]) (simp add: do_update_def)
  then have c2: "select_ticket (saveTicket now ticket d) (key ticket)
        = Some (excluded_row (row_id r) now ticket)"
    by (simp add: select_ticket_def st rk do_update_eq)
  have c3: "map row_id (jira_tickets (saveTicket now ticket d)) = map row_id (jira_tickets d)"
    unfolding st by (simp add: o_def keepid)
  have c4: "map row_ticket_key (jira_tickets (saveTicket now ticket d))
        = map row_ticket_key (jira_tickets d)"
    unfolding st by (simp add: o_def keep)
  have c5: "select_ticket (saveTicket now ticket d) k = select_ticket d k"
    if "k \<noteq> key ticket" for k
    unfolding select_ticket_def st
    using that by (intro find_map_miss) (auto simp: do_update_def)
  from c1 c2 c3 c4 c5 show ?thesis by blast
qed

theorem saveTicket_upsert_witness:
  "select_ticket db1 (key ticket_abc1_refetched) = Some row_abc1
   \<and> getCount_tickets (saveTicket 9 ticket_abc1_refetched db1) = getCount_tickets db1
   \<and> select_ticket (saveTicket 9 ticket_abc1_refetched db1) (key ticket_abc1_refetched)
       = Some (excluded_row (row_id row_abc1) 9 ticket_abc1_refetched)
   \<and> select_ticket (saveTicket 9 ticket_abc1_refetched db1) ''XYZ-2''
       = select_ticket db1 ''XYZ-2''"
proof -
  have h: "select_ticket db1 (key ticket_abc1_refetched) = Some row_abc1"
    by (simp add: select_ticket_def db1_def ticket_abc1_refetched_def row_abc1_def
        excluded_row_def ticket_abc1_def)
  have k: "''XYZ-2'' \<noteq> key ticket_abc1_refetched"
    by (simp add: ticket_abc1_refetched_def)
  from saveTicket_upsert [OF h, of 9] h k show ?thesis by blast
qed

section \<open>The orchestrator: shape of a run\<close>



lemma content_of_append: "content_of (xs @ ys) = content_of xs @ content_of ys"
  by (simp add: content_of_def)

lemma saveTicket_frame:
  "templates (saveTicket now t d) = templates d"
  "test_plan_history (saveTicket now t d) = test_plan_history d"
  "settings (saveTicket now t d) = settings d"
  by (simp_all add: saveTicket_def)

lemma getTicket_frame:
  assumes "TestPlanService_getTicket w d tid = Inr (x, d1)"
  shows "templates d1 = templates d" and "test_plan_history d1 = test_plan_history d"
    and "settings d1 = settings d" and "x \<noteq> None"
  using assms unfolding TestPlanService_getTicket_def
  by (cases "JiraTicketService_getTicket d tid";
      auto simp: saveTicket_frame split: if_splits sum.splits)+

lemma type_progress_event [simp]: "type (progress_event m p) = Progress"
  by (simp add: progress_event_def)

lemma not_terminal_progress [simp]: "\<not> is_terminal (progress_event m p)"
  by (simp add: is_terminal_def)

lemma no_terminal_steps [simp]:
  "filter is_terminal [progress_event m p] = []"
  "filter is_terminal (ticket_steps t) = []"
  "filter is_terminal (stream_steps t pr) = []"
  by (simp_all add: ticket_steps_def stream_steps_def is_terminal_def)

lemma no_complete_steps [simp]:
  "filter (\<lambda>e. type e = Complete) [progress_event m p] = []"
  "filter (\<lambda>e. type e = Complete) (ticket_steps t) = []"
  "filter (\<lambda>e. type e = Complete) (stream_steps t pr) = []"
  by (simp_all add: ticket_steps_def stream_steps_def)

text \<open>The factory throws for either provider name.\<close>

lemma createLLMProvider_throws:
  "\<exists>m. createLLMProvider p = Inl (ReferenceError m)"
  by (cases p) (simp_all add: createLLMProvider_def)


lemma generate_try_template_fails:
  "TestPlanService_getTicket w d (ticketId opts) = Inr (Some ticket, d1) \<Longrightarrow>
   TestPlanService_getTemplate d1 (templateId opts) = Inl e \<Longrightarrow>
   generate_try w d opts = (ticket_steps ticket, Some e, d1)"
  by (simp add: generate_try_def ticket_steps_def)

lemma generate_try_resolved:
  "TestPlanService_getTicket w d (ticketId opts) = Inr (Some ticket, d1) \<Longrightarrow>
   TestPlanService_getTemplate d1 (templateId opts) = Inr template \<Longrightarrow>
   createLLMProvider (provider opts) = Inl e \<Longrightarrow>
   generate_try w d opts = (stream_steps ticket (provider opts), Some e, d1)"
  by (simp add: generate_try_def ticket_steps_def stream_steps_def)









subsection \<open>The steps after the factory\<close>

text \<open>
  What the loop over the provider's stream, the save and the final yield do with a
  provider's stream, were one handed to them.
\<close>

lemma stream_and_save_throws:
  "snd run = Some e \<Longrightarrow> stream_and_save w d p ticket template run = (fst run, Some e, d)"
  by (simp add: stream_and_save_def)



lemma saveToHistory_appends:
  "\<not> history_insert_fails w \<Longrightarrow>
   \<exists>row. test_plan_history (fst (saveToHistory w data' d)) = test_plan_history d @ [row]
     \<and> h_generated_content row = hd_content data'
     \<and> h_ticket_key row = hd_ticketKey data'
     \<and> h_template_id row = Some (hd_templateId data')
     \<and> h_llm_provider row = hd_provider data'"
  by (simp add: saveToHistory_def Let_def)




section \<open>The provider stage is never entered\<close>



lemma run_ollama:
  "generate world1 db1 options_ollama
     = \<lparr>events = steps_abc1 ollama
                  @ [\<lparr>type = Error, data = ''OllamaProvider is not defined'', progress = None\<rparr>],
        thrown = None, db_after = db1\<rparr>"
  by code_simp




section \<open>Template resolution\<close>

lemma set_insert_row: "set (insert_row a rows) = insert a (set rows)"
  by (induction rows) auto

lemma set_order_templates: "set (order_templates rows) = set rows"
  unfolding order_templates_def by (induction rows) (simp_all add: set_insert_row)

lemma order_templates_Nil_iff: "order_templates rows = [] \<longleftrightarrow> rows = []"
  using set_order_templates [of rows] by (metis set_empty)

lemma find_default_none:
  "default_rows rows = [] \<Longrightarrow> find (\<lambda>r. tr_is_default r = 1) rows = None"
  by (simp add: default_rows_def find_None_iff filter_empty_conv)

lemma getDefaultTemplate_no_default:
  assumes "default_rows (templates d) = []"
  shows "getDefaultTemplate d
           = (if templates d = [] then None else Some (hd (getAllTemplates d)))"
proof (cases "templates d = []")
  case True
  then show ?thesis
    by (simp add: getDefaultTemplate_def getAllTemplates_def order_templates_def)
next
  case False
  then have "getAllTemplates d \<noteq> []"
    by (simp add: getAllTemplates_def order_templates_Nil_iff)
  moreover have "find (\<lambda>r. tr_is_default r = 1) (templates d) = None"
    by (rule find_default_none [OF assms])
  ultimately show ?thesis
    unfolding getDefaultTemplate_def using False
    by (cases "getAllTemplates d") (simp_all del: One_nat_def)
qed

lemma getDefaultTemplate_cong:
  "templates d1 = templates d \<Longrightarrow> getDefaultTemplate d1 = getDefaultTemplate d"
  unfolding getDefaultTemplate_def getAllTemplates_def by (simp cong: option.case_cong)

lemma hd_getAllTemplates_stored:
  "templates d \<noteq> [] \<Longrightarrow> hd (getAllTemplates d) \<in> set (map rowToTemplate (templates d))"
proof -
  assume "templates d \<noteq> []"
  then have ne: "order_templates (templates d) \<noteq> []"
    by (simp add: order_templates_Nil_iff)
  then have "hd (order_templates (templates d)) \<in> set (templates d)"
    using set_order_templates [of "templates d"] hd_in_set by blast
  then show ?thesis
    using ne by (simp add: getAllTemplates_def hd_map)
qed

text \<open>
  C5 (as amended). Let the ticket resolve, no template id be given and no stored
  template have \<open>is_default = 1\<close>. If the store is empty, \<open>generate\<close> throws \<open>NotFound\<close>
  (\<open>Template not found\<close>, 404) after the three progress events of the ticket stage,
  before the provider stage. If the store is not empty, \<open>getDefaultTemplate\<close> returns
  the first template of the listing (\<open>is_default DESC, created_at DESC\<close>), a stored
  template; the template stage succeeds with it, the run goes on to the provider
  stage and does not throw \<open>NotFound\<close>.
\<close>

theorem no_template_resolution:
  assumes "TestPlanService_getTicket w d (ticketId opts) = Inr (Some ticket, d1)"
    and "templateId opts = None"
    and "default_rows (templates d) = []"
  shows "(templates d = [] \<longrightarrow>
            generate w d opts
              = \<lparr>events = ticket_steps ticket,
                 thrown = Some (ApiErr (NotFound ''Template'')), db_after = d1\<rparr>)
       \<and> (templates d \<noteq> [] \<longrightarrow>
            TestPlanService_getTemplate d1 (templateId opts)
              = Inr (resolved (hd (getAllTemplates d)))
            \<and> hd (getAllTemplates d) \<in> set (map rowToTemplate (templates d))
            \<and> (\<exists>rest. events (generate w d opts)
                  = stream_steps ticket (provider opts) @ rest)
            \<and> thrown (generate w d opts) \<noteq> Some (ApiErr (NotFound ''Template'')))"
proof -
  have same: "templates d1 = templates d"
    by (rule getTicket_frame(1) [OF assms(1)])
  have dflt: "getDefaultTemplate d1
      = (if templates d = [] then None else Some (hd (getAllTemplates d)))"
    using getDefaultTemplate_no_default [OF assms(3)] getDefaultTemplate_cong [OF same]
    by simp
  have tp: "TestPlanService_getTemplate d1 (templateId opts)
      = (if templates d = [] then Inl (ApiErr (NotFound ''Template''))
         else Inr (resolved (hd (getAllTemplates d))))"
    by (simp add: TestPlanService_getTemplate_def assms(2) dflt)
  show ?thesis
  proof (intro conjI impI)
    assume e: "templates d = []"
    with tp have "TestPlanService_getTemplate d1 (templateId opts)
        = Inl (ApiErr (NotFound ''Template''))" by simp
    from generate_try_template_fails [OF assms(1) this]
    show "generate w d opts
              = \<lparr>events = ticket_steps ticket,
                 thrown = Some (ApiErr (NotFound ''Template'')), db_after = d1\<rparr>"
      by (simp add: generate_def generate_catch_def)
  next
    assume ne: "templates d \<noteq> []"
    with tp show tp': "TestPlanService_getTemplate d1 (templateId opts)
              = Inr (resolved (hd (getAllTemplates d)))" by simp
    from ne show "hd (getAllTemplates d) \<in> set (map rowToTemplate (templates d))"
      by (rule hd_getAllTemplates_stored)
    from createLLMProvider_throws obtain m where
      m: "createLLMProvider (provider opts) = Inl (ReferenceError m)" by blast
    have g: "generate w d opts =
         \<lparr>events = stream_steps ticket (provider opts)
                     @ [\<lparr>type = Error, data = m, progress = None\<rparr>],
          thrown = None, db_after = d1\<rparr>"
      by (simp add: generate_def generate_try_resolved [OF assms(1) tp' m] generate_catch_def)
    show "\<exists>rest. events (generate w d opts) = stream_steps ticket (provider opts) @ rest"
      unfolding g by simp
    show "thrown (generate w d opts) \<noteq> Some (ApiErr (NotFound ''Template''))"
      unfolding g by simp
  qed
qed

lemma cached_ticket:
  "TestPlanService_getTicket world1 db_empty_store (ticketId options_groq)
     = Inr (Some ticket_abc1, db_empty_store)"
  "TestPlanService_getTicket world1 db_no_default (ticketId options_groq)
     = Inr (Some ticket_abc1, db_no_default)"
  by code_simp+

theorem no_template_resolution_witness:
  "templateId options_groq = None
   \<and> default_rows (templates db_empty_store) = []
   \<and> templates db_empty_store = []
   \<and> generate world1 db_empty_store options_groq
       = \<lparr>events = ticket_steps ticket_abc1,
          thrown = Some (ApiErr (NotFound ''Template'')), db_after = db_empty_store\<rparr>
   \<and> default_rows (templates db_no_default) = []
   \<and> templates db_no_default \<noteq> []
   \<and> TestPlanService_getTemplate db_no_default (templateId options_groq)
       = Inr (resolved (hd (getAllTemplates db_no_default)))
   \<and> hd (getAllTemplates db_no_default) \<in> set (map rowToTemplate (templates db_no_default))"
proof -
  have t: "templateId options_groq = None"
    by (simp add: options_groq_def)
  have e1: "default_rows (templates db_empty_store) = []"
    by code_simp
  have e2: "templates db_empty_store = []"
    by code_simp
  have n1: "default_rows (templates db_no_default) = []"
    by code_simp
  have n2: "templates db_no_default \<noteq> []"
    by code_simp
  from no_template_resolution [OF cached_ticket(1) t e1]
    no_template_resolution [OF cached_ticket(2) t n1]
    t e1 e2 n1 n2
  show ?thesis
    by blast
qed

text \<open>
  One template is stored and it is not the default: the template stage resolves it
  (id 2), the two progress events of that stage are yielded, and nothing is thrown.
\<close>

theorem no_default_counterexample:
  "templateId options_groq = None
   \<and> default_rows (templates db_no_default) = []
   \<and> TestPlanService_getTemplate db_no_default (templateId options_groq)
       = Inr \<lparr>rt_id = 2, rt_content = ''Cases'', rt_name = ''Short''\<rparr>
   \<and> thrown (generate world1 db_no_default options_groq) = None
   \<and> take 5 (events (generate world1 db_no_default options_groq))
       = [\<lparr>type = Progress, data = ''Fetching JIRA ticket...'', progress = Some 5\<rparr>,
          \<lparr>type = Progress, data = ''Ticket found: Login'', progress = Some 15\<rparr>,
          \<lparr>type = Progress, data = ''Loading template...'', progress = Some 20\<rparr>,
          \<lparr>type = Progress, data = ''Template loaded'', progress = Some 25\<rparr>,
          \<lparr>type = Progress, data = ''Generating with groq...'', progress = Some 30\<rparr>]"
proof (intro conjI)
  show "templateId options_groq = None"
    by code_simp
  show "default_rows (templates db_no_default) = []"
    by code_simp
  show "TestPlanService_getTemplate db_no_default (templateId options_groq)
       = Inr \<lparr>rt_id = 2, rt_content = ''Cases'', rt_name = ''Short''\<rparr>"
    by code_simp
  show "thrown (generate world1 db_no_default options_groq) = None"
    by code_simp
  show "take 5 (events (generate world1 db_no_default options_groq))
       = [\<lparr>type = Progress, data = ''Fetching JIRA ticket...'', progress = Some 5\<rparr>,
          \<lparr>type = Progress, data = ''Ticket found: Login'', progress = Some 15\<rparr>,
          \<lparr>type = Progress, data = ''Loading template...'', progress = Some 20\<rparr>,
          \<lparr>type = Progress, data = ''Template loaded'', progress = Some 25\<rparr>,
          \<lparr>type = Progress, data = ''Generating with groq...'', progress = Some 30\<rparr>]"
    by code_simp
qed

section \<open>A rejected API key\<close>







section \<open>The template store: one default\<close>

lemma default_rows_unset [simp]: "default_rows (unset_default now rows) = []"
  by (induction rows) (simp_all add: default_rows_def unset_default_def)

lemma idx_unset [simp]: "idx_default_template (unset_default now rows)"
  by (simp add: idx_default_template_def)

lemma map_id_unset [simp]: "map tr_id (unset_default now rows) = map tr_id rows"
  by (induction rows) (simp_all add: unset_default_def)

lemma idx_filter: "idx_default_template rows \<Longrightarrow> idx_default_template (filter P rows)"
proof -
  have "length (default_rows (filter P rows)) \<le> length (default_rows rows)"
    unfolding default_rows_def
    by (induction rows) auto
  then show "idx_default_template rows \<Longrightarrow> idx_default_template (filter P rows)"
    by (simp add: idx_default_template_def)
qed

lemma insertTemplate_idx:
  "idx_default_template (templates d) \<Longrightarrow>
   idx_default_template (templates (fst (insertTemplate now data' d)))"
  by (simp add: insertTemplate_def Let_def)

lemma fst_case_sum:
  "fst (case p of (d', Inl e) \<Rightarrow> (d', f e) | (d', Inr x) \<Rightarrow> (d', g d' x)) = fst p"
  by (cases p; cases "snd p") auto

lemma createTemplate_db:
  "fst (createTemplate now file name d) = d
   \<or> (\<exists>data'. fst (createTemplate now file name d) = fst (insertTemplate now data' d))"
  by (auto simp: createTemplate_def Let_def fst_case_sum split: option.splits)

lemma createTemplate_idx:
  "idx_default_template (templates d) \<Longrightarrow>
   idx_default_template (templates (fst (createTemplate now file name d)))"
  using createTemplate_db insertTemplate_idx by metis

lemma updateTemplate_idx:
  "idx_default_template (templates d) \<Longrightarrow>
   idx_default_template (templates (fst (updateTemplate now i data' d)))"
  by (simp add: updateTemplate_def Let_def split: option.splits)

lemma deleteTemplate_idx:
  "idx_default_template (templates d) \<Longrightarrow>
   idx_default_template (templates (fst (deleteTemplate i d)))"
  by (simp add: deleteTemplate_def idx_filter split: option.splits)

lemma apply_template_op_idx:
  "idx_default_template (templates d) \<Longrightarrow>
   idx_default_template (templates (apply_template_op op d))"
  by (cases op)
    (simp_all add: createTemplate_idx updateTemplate_idx deleteTemplate_idx setAsDefault_def)

lemma foldl_template_ops_idx:
  "idx_default_template (templates d) \<Longrightarrow>
   idx_default_template (templates (foldl (\<lambda>d op. apply_template_op op d) d ops))"
  by (induction ops arbitrary: d) (simp_all add: apply_template_op_idx)

lemma find_Some_set: "find P xs = Some x \<Longrightarrow> x \<in> set xs \<and> P x"
  by (induction xs) (auto split: if_splits)

lemma getTemplate_Some_row:
  "TemplateService_getTemplate d i = Some t \<Longrightarrow> \<exists>r \<in> set (templates d). tr_id r = i"
  using find_Some_set [of "\<lambda>r. tr_id r = i" "templates d"]
  by (auto simp: TemplateService_getTemplate_def)

lemma unset_default_keeps_id:
  "r \<in> set rows \<Longrightarrow> \<exists>r1 \<in> set (unset_default now rows). tr_id r1 = tr_id r"
proof (induction rows)
  case Nil
  then show ?case by simp
next
  case (Cons a rows)
  show ?case
  proof (cases "r = a")
    case True
    have "tr_id (hd (unset_default now (a # rows))) = tr_id a"
      by (simp add: unset_default_def)
    moreover have "hd (unset_default now (a # rows)) \<in> set (unset_default now (a # rows))"
      by (simp add: unset_default_def)
    ultimately show ?thesis using True by blast
  next
    case False
    with Cons obtain r1 where "r1 \<in> set (unset_default now rows)" "tr_id r1 = tr_id r"
      by auto
    then show ?thesis by (auto simp: unset_default_def)
  qed
qed

lemma singleton_default:
  assumes "idx_default_template rows" and "x \<in> set rows" and "tr_is_default x = 1"
  shows "default_rows rows = [x]"
proof -
  from assms(2,3) have x: "x \<in> set (default_rows rows)"
    by (simp add: default_rows_def)
  from assms(1) have "length (default_rows rows) \<le> 1"
    by (simp add: idx_default_template_def)
  with x show ?thesis
    by (cases "default_rows rows") auto
qed

lemma setAsDefault_success:
  assumes "setAsDefault now i d = (d', Inr t)"
  shows "\<exists>r. default_rows (templates d') = [r] \<and> tr_id r = i"
proof -
  let ?data = "\<lparr>upd_name = None, upd_isDefault = Some True\<rparr>"
  let ?rows = "map (sql_update_template now i ?data) (unset_default now (templates d))"
  from assms obtain template where g: "TemplateService_getTemplate d i = Some template"
    by (auto simp: setAsDefault_def updateTemplate_def split: option.splits)
  with assms have idx: "idx_default_template ?rows" and d': "templates d' = ?rows"
    by (auto simp: setAsDefault_def updateTemplate_def Let_def split: if_splits)
  from getTemplate_Some_row [OF g] obtain r where r: "r \<in> set (templates d)" "tr_id r = i"
    by blast
  with unset_default_keeps_id [of r "templates d" now]
  obtain r1 where r1: "r1 \<in> set (unset_default now (templates d))" "tr_id r1 = i"
    by auto
  let ?x = "sql_update_template now i ?data r1"
  have "?x \<in> set ?rows" using r1(1) by simp
  moreover have "tr_is_default ?x = 1" "tr_id ?x = i"
    using r1(2) by (simp_all add: sql_update_template_def)
  ultimately show ?thesis
    using singleton_default [OF idx] d' by metis
qed

lemma distinct_filter_id:
  "distinct (map tr_id rows) \<Longrightarrow> length (filter (\<lambda>r. tr_id r = i) rows) \<le> 1"
proof (induction rows)
  case Nil
  then show ?case by simp
next
  case (Cons a rows)
  show ?case
  proof (cases "tr_id a = i")
    case True
    with Cons.prems have "i \<notin> tr_id ` set rows" by simp
    then have "\<forall>r \<in> set rows. tr_id r \<noteq> i" by (metis imageI)
    then have "filter (\<lambda>r. tr_id r = i) rows = []"
      by (simp add: filter_empty_conv)
    with True show ?thesis by simp
  next
    case False
    with Cons show ?thesis by simp
  qed
qed

lemma default_rows_after_update:
  assumes "default_rows rows = []"
  shows "default_rows (map (sql_update_template now i \<lparr>upd_name = None, upd_isDefault = Some True\<rparr>) rows)
    = map (sql_update_template now i \<lparr>upd_name = None, upd_isDefault = Some True\<rparr>)
        (filter (\<lambda>r. tr_id r = i) rows)"
  using assms
  by (induction rows) (auto simp: default_rows_def sql_update_template_def split: if_splits)

lemma setAsDefault_succeeds:
  assumes "distinct (map tr_id (templates d))" and "TemplateService_getTemplate d i \<noteq> None"
  shows "\<exists>t. snd (setAsDefault now i d) = Inr t"
proof -
  let ?data = "\<lparr>upd_name = None, upd_isDefault = Some True\<rparr>"
  let ?rows1 = "unset_default now (templates d)"
  have "distinct (map tr_id ?rows1)" using assms(1) by simp
  then have "length (filter (\<lambda>r. tr_id r = i) ?rows1) \<le> 1"
    by (rule distinct_filter_id)
  then have "idx_default_template (map (sql_update_template now i ?data) ?rows1)"
    by (simp add: idx_default_template_def default_rows_after_update)
  with assms(2) show ?thesis
    by (auto simp: setAsDefault_def updateTemplate_def Let_def)
qed

text \<open>
  C6. At most one template has \<open>is_default = 1\<close>: the index holds after any sequence of
  create, update, set-as-default and delete calls, successful or not, from a state in
  which it holds. After a successful \<open>setAsDefault\<close> exactly one template has
  \<open>is_default = 1\<close>, and it is the one named. The call does succeed on an existing
  template (rowids being distinct): the \<open>UPDATE\<close> that clears the previous default
  runs first, so the index is never violated.
\<close>

theorem at_most_one_default:
  "(idx_default_template (templates d) \<longrightarrow>
      idx_default_template (templates (foldl (\<lambda>d op. apply_template_op op d) d ops)))
   \<and> (setAsDefault now i d = (d', Inr t) \<longrightarrow>
        (\<exists>r. default_rows (templates d') = [r] \<and> tr_id r = i))
   \<and> (distinct (map tr_id (templates d)) \<and> TemplateService_getTemplate d i \<noteq> None \<longrightarrow>
        (\<exists>t'. snd (setAsDefault now i d) = Inr t'))"
  using foldl_template_ops_idx setAsDefault_success setAsDefault_succeeds by blast

theorem at_most_one_default_witness:
  "idx_default_template (templates db_two_templates)
   \<and> idx_default_template
       (templates (foldl (\<lambda>d op. apply_template_op op d) db_two_templates
          [SetAsDefault 9 2, Create 10 (Some pdf_upload) None, Delete 2]))
   \<and> setAsDefault 9 2 db_two_templates
       = (fst (setAsDefault 9 2 db_two_templates),
          Inr (TemplateService_getTemplate (fst (setAsDefault 9 2 db_two_templates)) 2))
   \<and> (\<exists>r. default_rows (templates (fst (setAsDefault 9 2 db_two_templates))) = [r]
          \<and> tr_id r = 2)
   \<and> distinct (map tr_id (templates db_two_templates))
   \<and> TemplateService_getTemplate db_two_templates 2 \<noteq> None
   \<and> (\<exists>t'. snd (setAsDefault 9 2 db_two_templates) = Inr t')"
proof -
  have h1: "idx_default_template (templates db_two_templates)"
    by code_simp
  have h2: "setAsDefault 9 2 db_two_templates
       = (fst (setAsDefault 9 2 db_two_templates),
          Inr (TemplateService_getTemplate (fst (setAsDefault 9 2 db_two_templates)) 2))"
    by code_simp
  have h3: "distinct (map tr_id (templates db_two_templates))"
    by code_simp
  have h4: "TemplateService_getTemplate db_two_templates 2 \<noteq> None"
    by code_simp
  from at_most_one_default
    [of db_two_templates "[SetAsDefault 9 2, Create 10 (Some pdf_upload) None, Delete 2]"
      9 2 "fst (setAsDefault 9 2 db_two_templates)"
      "TemplateService_getTemplate (fst (setAsDefault 9 2 db_two_templates)) 2"]
    h1 h2 h3 h4
  show ?thesis by blast
qed

lemma unset_default_Nil [simp]: "unset_default now [] = []"
  by (simp add: unset_default_def)

lemma insertTemplate_success:
  assumes "insertTemplate now data' d = (d', Inr i)"
  shows "\<exists>row. templates d'
            = (if ctd_isDefault data' then unset_default now (templates d) else templates d)
              @ [row]
          \<and> tr_is_default row = (if ctd_isDefault data' then 1 else 0)
          \<and> tr_id row = Suc (templates_seq d) \<and> i = Suc (templates_seq d)"
  using assms by (auto simp: insertTemplate_def Let_def split: if_splits)

lemma createTemplate_success:
  assumes "createTemplate now file name d = (d', Inr t)"
  shows "\<exists>n fn fp content i.
           insertTemplate now
             \<lparr>ctd_name = n, ctd_filename = fn, ctd_filepath = fp, ctd_content = content,
              ctd_isDefault = shouldBeDefault d\<rparr> d = (d', Inr i)"
  using assms
  by (auto simp: createTemplate_def Let_def
      split: option.splits if_splits prod.splits sum.splits) blast+

text \<open>
  C10. A successful upload appends one row and leaves the stored rows as they were. The
  new row has \<open>is_default = 1\<close> if and only if the store was empty; the first template
  uploaded is then what \<open>getDefaultTemplate\<close> returns, and an upload into a store that
  is not empty leaves the rows with \<open>is_default = 1\<close> unchanged.
\<close>

theorem first_upload_becomes_default:
  assumes "createTemplate now file name d = (d', Inr t)"
  shows "\<exists>row. templates d' = templates d @ [row]
           \<and> (tr_is_default row = 1 \<longleftrightarrow> templates d = [])
           \<and> tr_is_default row = (if templates d = [] then 1 else 0)
           \<and> default_rows (templates d')
               = (if templates d = [] then [row] else default_rows (templates d))
           \<and> (templates d = [] \<longrightarrow> getDefaultTemplate d' = Some (rowToTemplate row))"
proof -
  from createTemplate_success [OF assms] obtain n fn fp content i where
    ins0: "insertTemplate now
             \<lparr>ctd_name = n, ctd_filename = fn, ctd_filepath = fp, ctd_content = content,
              ctd_isDefault = shouldBeDefault d\<rparr> d = (d', Inr i)"
    by blast
  define data' where "data' = \<lparr>ctd_name = n, ctd_filename = fn, ctd_filepath = fp,
    ctd_content = content, ctd_isDefault = shouldBeDefault d\<rparr>"
  have dflt: "ctd_isDefault data' = shouldBeDefault d"
    by (simp add: data'_def)
  have ins: "insertTemplate now data' d = (d', Inr i)"
    using ins0 by (simp add: data'_def)
  have sb: "shouldBeDefault d = (templates d = [])"
    by (simp add: shouldBeDefault_def hasTemplates_def getCount_def)
  from insertTemplate_success [OF ins] obtain row where
    row: "templates d'
            = (if ctd_isDefault data' then unset_default now (templates d) else templates d)
              @ [row]"
      "tr_is_default row = (if ctd_isDefault data' then 1 else 0)"
    by blast
  have t: "templates d' = templates d @ [row]"
    using row(1) dflt sb by (cases "templates d = []") simp_all
  have f: "tr_is_default row = (if templates d = [] then 1 else 0)"
    using row(2) dflt sb by simp
  have dr: "default_rows (templates d')
               = (if templates d = [] then [row] else default_rows (templates d))"
    unfolding t using f by (simp add: default_rows_def)
  have gd: "getDefaultTemplate d' = Some (rowToTemplate row)" if "templates d = []"
    using that t f by (simp add: getDefaultTemplate_def)
  from t f dr gd show ?thesis
    by (intro exI [of _ row]) simp
qed

lemma upload_first:
  "createTemplate 9 (Some pdf_upload) None db_empty_store
     = (fst (createTemplate 9 (Some pdf_upload) None db_empty_store),
        Inr (TemplateService_getTemplate
               (fst (createTemplate 9 (Some pdf_upload) None db_empty_store)) 1))"
  by (simp add: createTemplate_def pdf_upload_def db_empty_store_def db1_def
      shouldBeDefault_def hasTemplates_def getCount_def insertTemplate_def
      idx_default_template_def default_rows_def Let_def
      TemplateService_getTemplate_def)

lemma upload_second:
  "createTemplate 9 (Some pdf_upload) None db1
       = (fst (createTemplate 9 (Some pdf_upload) None db1),
          Inr (TemplateService_getTemplate
                 (fst (createTemplate 9 (Some pdf_upload) None db1)) 2))"
  by (simp add: createTemplate_def pdf_upload_def db1_def template_row1_def
      shouldBeDefault_def hasTemplates_def getCount_def insertTemplate_def
      idx_default_template_def default_rows_def Let_def
      TemplateService_getTemplate_def)

theorem first_upload_becomes_default_witness:
  "createTemplate 9 (Some pdf_upload) None db_empty_store
     = (fst (createTemplate 9 (Some pdf_upload) None db_empty_store),
        Inr (TemplateService_getTemplate
               (fst (createTemplate 9 (Some pdf_upload) None db_empty_store)) 1))
   \<and> templates db_empty_store = []
   \<and> (\<exists>row. templates (fst (createTemplate 9 (Some pdf_upload) None db_empty_store))
               = templates db_empty_store @ [row]
          \<and> tr_is_default row = 1
          \<and> getDefaultTemplate (fst (createTemplate 9 (Some pdf_upload) None db_empty_store))
               = Some (rowToTemplate row))
   \<and> createTemplate 9 (Some pdf_upload) None db1
       = (fst (createTemplate 9 (Some pdf_upload) None db1),
          Inr (TemplateService_getTemplate
                 (fst (createTemplate 9 (Some pdf_upload) None db1)) 2))
   \<and> templates db1 \<noteq> []
   \<and> (\<exists>row. templates (fst (createTemplate 9 (Some pdf_upload) None db1))
               = templates db1 @ [row]
          \<and> tr_is_default row = 0
          \<and> default_rows (templates (fst (createTemplate 9 (Some pdf_upload) None db1)))
               = default_rows (templates db1))"
proof -
  have a: "createTemplate 9 (Some pdf_upload) None db_empty_store
     = (fst (createTemplate 9 (Some pdf_upload) None db_empty_store),
        Inr (TemplateService_getTemplate
               (fst (createTemplate 9 (Some pdf_upload) None db_empty_store)) 1))"
    by (rule upload_first)
  have e: "templates db_empty_store = []"
    by code_simp
  have b: "createTemplate 9 (Some pdf_upload) None db1
       = (fst (createTemplate 9 (Some pdf_upload) None db1),
          Inr (TemplateService_getTemplate
                 (fst (createTemplate 9 (Some pdf_upload) None db1)) 2))"
    by (rule upload_second)
  have n: "templates db1 \<noteq> []"
    by code_simp
  from first_upload_becomes_default [OF a] e
  have 1: "\<exists>row. templates (fst (createTemplate 9 (Some pdf_upload) None db_empty_store))
               = templates db_empty_store @ [row]
          \<and> tr_is_default row = 1
          \<and> getDefaultTemplate (fst (createTemplate 9 (Some pdf_upload) None db_empty_store))
               = Some (rowToTemplate row)"
    by auto
  from first_upload_becomes_default [OF b] n
  have 2: "\<exists>row. templates (fst (createTemplate 9 (Some pdf_upload) None db1))
               = templates db1 @ [row]
          \<and> tr_is_default row = 0
          \<and> default_rows (templates (fst (createTemplate 9 (Some pdf_upload) None db1)))
               = default_rows (templates db1)"
    by auto
  from a e 1 b n 2 show ?thesis by blast
qed

section \<open>The Ollama stream\<close>

lemma content_of_simps [simp]:
  "content_of [] = []"
  "content_of (\<lparr>type = Content, data = x, progress = p\<rparr> # evs) = x @ content_of evs"
  "content_of (\<lparr>type = Complete, data = x, progress = p\<rparr> # evs) = content_of evs"
  "content_of (\<lparr>type = Progress, data = x, progress = p\<rparr> # evs) = content_of evs"
  by (simp_all add: content_of_def)

lemma is_terminal_simps [simp]:
  "is_terminal \<lparr>type = Content, data = x, progress = p\<rparr> = False"
  "is_terminal \<lparr>type = Progress, data = x, progress = p\<rparr> = False"
  "is_terminal \<lparr>type = Complete, data = x, progress = p\<rparr> = True"
  "is_terminal \<lparr>type = Error, data = x, progress = p\<rparr> = True"
  by (simp_all add: is_terminal_def)

text \<open>What one pass over lines or chunks yields.\<close>

lemma Ollama_lines_ok:
  "Ollama_lines parse f ls = (evs, full, fin) \<Longrightarrow>
   full = f @ content_of evs
   \<and> (fin \<longrightarrow> (\<exists>pre. evs = pre @ [\<lparr>type = Complete, data = full, progress = Some 100\<rparr>]
             \<and> filter is_terminal pre = []))
   \<and> (\<not> fin \<longrightarrow> filter is_terminal evs = [])"
proof (induction parse f ls arbitrary: evs full fin rule: Ollama_lines.induct)
  case (1 parse fullContent)
  then show ?case by simp
next
  case (2 parse fullContent line rest)
  show ?case
  proof (cases "blank line")
    case True
    with "2.prems" have "Ollama_lines parse fullContent rest = (evs, full, fin)"
      by simp
    then show ?thesis by (rule "2.IH"(1) [OF True])
  next
    case nb: False
    show ?thesis
    proof (cases "parse line")
      case None
      with "2.prems" nb have "Ollama_lines parse fullContent rest = (evs, full, fin)"
        by simp
      then show ?thesis by (rule "2.IH"(2) [OF nb None])
    next
      case (Some r)
      define full' where
        "full' = (if response r \<noteq> [] then fullContent @ response r else fullContent)"
      define ev where
        "ev = (if response r \<noteq> []
               then [\<lparr>type = Content, data = response r,
                      progress = Some (if is_done r then 100
                         else min (10 + of_nat (length full') / 100) 95)\<rparr>]
               else [])"
      have step: "Ollama_lines parse fullContent (line # rest) =
          (if is_done r
           then (ev @ [\<lparr>type = Complete, data = full', progress = Some 100\<rparr>], full', True)
           else (case Ollama_lines parse full' rest of
                   (evs', full, fin) \<Rightarrow> (ev @ evs', full, fin)))"
        using nb Some by (simp add: Let_def full'_def ev_def)
      have c: "fullContent @ content_of ev = full'"
        by (simp add: ev_def full'_def)
      have t: "filter is_terminal ev = []"
        by (simp add: ev_def)
      have ca: "content_of (ev @ xs) = content_of ev @ content_of xs" for xs
        by (simp add: content_of_def)
      show ?thesis
      proof (cases "is_done r")
        case True
        with "2.prems" step have
          e: "evs = ev @ [\<lparr>type = Complete, data = full', progress = Some 100\<rparr>]"
          and f: "full = full'" and "fin"
          by simp_all
        have "content_of evs = content_of ev"
          unfolding e ca by simp
        with c f have "full = fullContent @ content_of evs" by simp
        moreover have "\<exists>pre. evs = pre @ [\<lparr>type = Complete, data = full, progress = Some 100\<rparr>]
                  \<and> filter is_terminal pre = []"
          using e f t by blast
        ultimately show ?thesis using \<open>fin\<close> by simp
      next
        case False
        obtain evs' full'' fin' where
          rec: "Ollama_lines parse full' rest = (evs', full'', fin')"
          by (cases "Ollama_lines parse full' rest")
        with "2.prems" step False have r: "evs = ev @ evs'" "full = full''" "fin = fin'"
          by simp_all
        from "2.IH"(3) [OF nb Some full'_def ev_def False rec]
        have ih1: "full'' = full' @ content_of evs'"
          and ih2: "fin' \<Longrightarrow>
             \<exists>pre. evs' = pre @ [\<lparr>type = Complete, data = full'', progress = Some 100\<rparr>]
                  \<and> filter is_terminal pre = []"
          and ih3: "\<not> fin' \<Longrightarrow> filter is_terminal evs' = []"
          by blast+
        have a: "full = fullContent @ content_of evs"
          using ih1 c unfolding r ca by simp
        have b: "(fin \<longrightarrow> (\<exists>pre. evs = pre @ [\<lparr>type = Complete, data = full, progress = Some 100\<rparr>]
                  \<and> filter is_terminal pre = []))
           \<and> (\<not> fin \<longrightarrow> filter is_terminal evs = [])"
        proof (cases fin')
          case True
          with ih2 obtain pre where
            p: "evs' = pre @ [\<lparr>type = Complete, data = full'', progress = Some 100\<rparr>]"
              "filter is_terminal pre = []" by auto
          have "evs = (ev @ pre) @ [\<lparr>type = Complete, data = full, progress = Some 100\<rparr>]"
            using p(1) r by simp
          moreover have "filter is_terminal (ev @ pre) = []"
            using p(2) t by simp
          ultimately have "\<exists>pre. evs = pre @ [\<lparr>type = Complete, data = full, progress = Some 100\<rparr>]
                  \<and> filter is_terminal pre = []"
            by blast
          with True r(3) show ?thesis by simp
        next
          case False
          with ih3 have "filter is_terminal evs' = []" by simp
          with False r t show ?thesis by simp
        qed
        from a b show ?thesis by blast
      qed
    qed
  qed
qed

lemma Ollama_chunks_step:
  "Ollama_chunks parse f b (chunk # rest) =
     (case Ollama_lines parse f (butlast (split_lines (b @ chunk))) of
        (evs, full, fin) \<Rightarrow>
          if fin then (evs, full, True)
          else (case Ollama_chunks parse full (last (split_lines (b @ chunk))) rest of
                  (evs', full', fin') \<Rightarrow> (evs @ evs', full', fin')))"
  by (simp add: Let_def split: prod.splits)

lemma Ollama_chunks_ok:
  "Ollama_chunks parse f b cs = (evs, full, fin) \<Longrightarrow>
   full = f @ content_of evs
   \<and> (fin \<longrightarrow> (\<exists>pre. evs = pre @ [\<lparr>type = Complete, data = full, progress = Some 100\<rparr>]
             \<and> filter is_terminal pre = []))
   \<and> (\<not> fin \<longrightarrow> filter is_terminal evs = [])"
proof (induction cs arbitrary: f b evs full fin)
  case Nil
  then show ?case by simp
next
  case (Cons chunk rest)
  obtain evs1 full1 fin1 where
    l: "Ollama_lines parse f (butlast (split_lines (b @ chunk))) = (evs1, full1, fin1)"
    by (cases "Ollama_lines parse f (butlast (split_lines (b @ chunk)))")
  note ok1 = Ollama_lines_ok [OF l]
  show ?case
  proof (cases fin1)
    case True
    with Cons.prems l have "evs = evs1" "full = full1" "fin"
      by (simp_all add: Ollama_chunks_step)
    with ok1 True show ?thesis by blast
  next
    case False
    obtain evs2 full2 fin2 where
      c: "Ollama_chunks parse full1 (last (split_lines (b @ chunk))) rest = (evs2, full2, fin2)"
      by (cases "Ollama_chunks parse full1 (last (split_lines (b @ chunk))) rest")
    with Cons.prems l False have r: "evs = evs1 @ evs2" "full = full2" "fin = fin2"
      by (simp_all add: Ollama_chunks_step)
    note ok2 = Cons.IH [OF c]
    from ok1 False have t1: "filter is_terminal evs1 = []" and f1: "full1 = f @ content_of evs1"
      by simp_all
    have a: "full = f @ content_of evs"
      using ok2 f1 r by (simp add: content_of_append)
    have b: "\<exists>pre. evs = pre @ [\<lparr>type = Complete, data = full, progress = Some 100\<rparr>]
             \<and> filter is_terminal pre = []" if "fin"
    proof -
      from that r ok2 obtain pre where
        p: "evs2 = pre @ [\<lparr>type = Complete, data = full2, progress = Some 100\<rparr>]"
          "filter is_terminal pre = []" by auto
      have "evs = (evs1 @ pre) @ [\<lparr>type = Complete, data = full, progress = Some 100\<rparr>]"
        using p(1) r by simp
      moreover have "filter is_terminal (evs1 @ pre) = []"
        using p(2) t1 by simp
      ultimately show ?thesis by blast
    qed
    have c': "filter is_terminal evs = []" if "\<not> fin"
      using that r ok2 t1 by simp
    from a b c' show ?thesis by blast
  qed
qed

subsection \<open>Chunks and lines\<close>

text \<open>
  Reading chunk by chunk with the line buffer is reading the complete lines of the
  whole body, in order, up to the line that ends the generator.
\<close>

lemma split_lines_ne [simp]: "split_lines s \<noteq> []"
  by (induction s) (auto split: list.splits)








subsection \<open>What the lines yield\<close>

lemma is_content_Content [simp]: "is_content \<lparr>type = Content, data = x, progress = p\<rparr>"
  by (simp add: is_content_def)













section \<open>The payload of the shipped providers\<close>

text \<open>
  Both shipped providers end a stream that does not fail with \<open>complete\<close> carrying
  exactly the text of the \<open>content\<close> events they yielded before it: with them the
  provider's payload and the orchestrator's accumulator are the same string.
\<close>

lemma Groq_stream_accumulates:
  "snd (Groq_stream fullContent n chunks)
     = fullContent @ content_of (fst (Groq_stream fullContent n chunks))"
proof (induction fullContent n chunks rule: Groq_stream.induct)
  case (1 fullContent chunkCount)
  show ?case by simp
next
  case (2 fullContent chunkCount content rest)
  show ?case
  proof (cases "content = []")
    case True
    with "2.IH"(2) show ?thesis by simp
  next
    case False
    obtain evs full where
      r: "Groq_stream (fullContent @ content) (Suc chunkCount) rest = (evs, full)"
      by (cases "Groq_stream (fullContent @ content) (Suc chunkCount) rest")
    from "2.IH"(1) [OF False refl refl refl] r
    have "full = fullContent @ content @ content_of evs" by simp
    with False r show ?thesis by simp
  qed
qed

lemma Groq_payload_is_accumulated:
  assumes "snd up = None"
  shows "\<exists>evs. fst (Groq_generateTestPlan up)
                 = evs @ [\<lparr>type = Complete, data = content_of evs, progress = Some 100\<rparr>]
           \<and> snd (Groq_generateTestPlan up) = None"
proof (cases "Groq_stream [] 0 (fst up)")
  case (Pair evs full)
  with Groq_stream_accumulates [of "[]" 0 "fst up"] have "full = content_of evs"
    by simp
  with Pair assms show ?thesis
    by (simp add: Groq_generateTestPlan_def)
qed

lemma Ollama_payload_is_accumulated:
  assumes "snd (Ollama_generateTestPlan cfg parse up) = None"
  shows "\<exists>evs. fst (Ollama_generateTestPlan cfg parse up)
                 = evs @ [\<lparr>type = Complete, data = content_of evs, progress = Some 100\<rparr>]"
proof -
  obtain evs full fin where c: "Ollama_chunks parse [] [] (fst up) = (evs, full, fin)"
    by (cases "Ollama_chunks parse [] [] (fst up)")
  note ok = Ollama_chunks_ok [OF c]
  let ?started = "\<lparr>type = Progress, data = ''Generating test plan with Ollama (local)...'',
                     progress = Some 10\<rparr>"
  show ?thesis
  proof (cases fin)
    case True
    with ok obtain pre where
      p: "evs = pre @ [\<lparr>type = Complete, data = full, progress = Some 100\<rparr>]"
      by blast
    with ok have "full = content_of pre"
      by (simp add: content_of_append)
    then have "fst (Ollama_generateTestPlan cfg parse up)
        = (?started # pre)
          @ [\<lparr>type = Complete, data = content_of (?started # pre), progress = Some 100\<rparr>]"
      using c True p by (simp add: Ollama_generateTestPlan_def)
    then show ?thesis by blast
  next
    case False
    with assms c have n: "snd up = None"
      by (cases "snd up") (simp_all add: Ollama_generateTestPlan_def)
    from ok have "full = content_of evs" by simp
    then have "fst (Ollama_generateTestPlan cfg parse up)
        = (?started # evs)
          @ [\<lparr>type = Complete, data = content_of (?started # evs), progress = Some 100\<rparr>]"
      using c False n by (simp add: Ollama_generateTestPlan_def)
    then show ?thesis by blast
  qed
qed

end
